theory Spec2Isabelle
  imports Main
begin

section \<open>Python strings\<close>

text \<open>
  A Python \<^verbatim>\<open>str\<close> is a sequence of Unicode code points, so it is modelled as a list of
  natural numbers. \<open>str\<close> turns an ASCII literal into such a list.
\<close>

type_synonym pystr = "nat list"

definition str :: "string \<Rightarrow> pystr" where
  "str s = map of_char s"

text \<open>
  \<^verbatim>\<open>str.lower()\<close>. The program lower-cases only strings made of ASCII characters (a
  disposition type, a parameter name, a charset literal), where it maps \<open>A..Z\<close> to
  \<open>a..z\<close> and leaves every other character alone.
\<close>

definition lower_cp :: "nat \<Rightarrow> nat" where
  "lower_cp c = (if 65 \<le> c \<and> c \<le> 90 then c + 32 else c)"

definition lower :: "pystr \<Rightarrow> pystr" where
  "lower s = map lower_cp s"

text \<open>
  \<^verbatim>\<open>str.upper()\<close>, as far as a comparison with an upper-cased ASCII literal can see it:
  \<open>a..z\<close> go to \<open>A..Z\<close>, and the only other code points whose upper case is an ASCII
  letter are U+0131 (dotless i, to \<open>I\<close>) and U+017F (long s, to \<open>S\<close>). Every other
  code point is mapped outside ASCII or to several characters, and is kept here as it is.
\<close>

definition upper_cp :: "nat \<Rightarrow> nat" where
  "upper_cp c = (if 97 \<le> c \<and> c \<le> 122 then c - 32
                 else if c = 305 then 73 else if c = 383 then 83 else c)"

definition upper :: "pystr \<Rightarrow> pystr" where
  "upper s = map upper_cp s"

text \<open>\<^verbatim>\<open>s.endswith("*")\<close>\<close>

definition endswith_star :: "pystr \<Rightarrow> bool" where
  "endswith_star s = (case rev s of [] \<Rightarrow> False | c # _ \<Rightarrow> c = 42)"

text \<open>\<^verbatim>\<open>s.replace(old, new)\<close> for one-character \<open>old\<close> and \<open>new\<close>.\<close>

definition replace_char :: "nat \<Rightarrow> nat \<Rightarrow> pystr \<Rightarrow> pystr" where
  "replace_char old new s = map (\<lambda>c. if c = old then new else c) s"

text \<open>\<^verbatim>\<open>str(i)\<close> for a non-negative integer: its decimal digits.\<close>

fun str_nat :: "nat \<Rightarrow> pystr" where
  "str_nat n = (if n < 10 then [48 + n] else str_nat (n div 10) @ [48 + n mod 10])"

text \<open>
  \<^verbatim>\<open>str.expandtabs()\<close> with the default tab size 8: a tab becomes the spaces that reach
  the next multiple of 8 columns; the column restarts after a line feed or carriage return.
\<close>

fun expandtabs_from :: "nat \<Rightarrow> pystr \<Rightarrow> pystr" where
  "expandtabs_from line_pos [] = []"
| "expandtabs_from line_pos (ch # rest) =
     (if ch = 9 then
        replicate (8 - line_pos mod 8) 32
          @ expandtabs_from (line_pos + (8 - line_pos mod 8)) rest
      else ch # expandtabs_from (if ch = 10 \<or> ch = 13 then 0 else line_pos + 1) rest)"

definition expandtabs :: "pystr \<Rightarrow> pystr" where
  "expandtabs s = expandtabs_from 0 s"

section \<open>Percent-decoding and character sets (urllib.parse.unquote)\<close>

definition is_hexdig :: "nat \<Rightarrow> bool" where
  "is_hexdig c = ((48 \<le> c \<and> c \<le> 57) \<or> (65 \<le> c \<and> c \<le> 70) \<or> (97 \<le> c \<and> c \<le> 102))"

definition hexval :: "nat \<Rightarrow> nat" where
  "hexval c = (if c \<le> 57 then c - 48 else if c \<le> 70 then c - 55 else c - 87)"

text \<open>
  \<^verbatim>\<open>unquote_to_bytes\<close> on an ASCII string: a \<open>%\<close> followed by two hex digits is the
  octet they spell; any other character, a \<open>%\<close> without two hex digits included, is
  its own octet.
\<close>

fun unquote_to_bytes :: "pystr \<Rightarrow> nat list" where
  "unquote_to_bytes (p # a # b # rest) =
     (if p = 37 \<and> is_hexdig a \<and> is_hexdig b
      then (16 * hexval a + hexval b) # unquote_to_bytes rest
      else p # unquote_to_bytes (a # b # rest))"
| "unquote_to_bytes s = s"

text \<open>
  \<^verbatim>\<open>bytes.decode("utf-8", "strict")\<close>: \<open>None\<close> is a \<^verbatim>\<open>UnicodeDecodeError\<close>. Overlong
  forms, surrogates and values above U+10FFFF are refused.
\<close>

definition is_cont :: "nat \<Rightarrow> bool" where
  "is_cont c = (128 \<le> c \<and> c \<le> 191)"

fun utf8_decode :: "nat list \<Rightarrow> pystr option" where
  "utf8_decode [] = Some []"
| "utf8_decode (b # bs) =
     (if b < 128 then map_option ((#) b) (utf8_decode bs)
      else if 194 \<le> b \<and> b \<le> 223 then
        (case bs of
           c1 # r \<Rightarrow>
             if is_cont c1
             then map_option ((#) ((b - 192) * 64 + (c1 - 128))) (utf8_decode r)
             else None
         | _ \<Rightarrow> None)
      else if 224 \<le> b \<and> b \<le> 239 then
        (case bs of
           c1 # c2 # r \<Rightarrow>
             if is_cont c1 \<and> is_cont c2
                \<and> (if b = 224 then 160 \<le> c1 else True)
                \<and> (if b = 237 then c1 \<le> 159 else True)
             then map_option ((#) ((b - 224) * 4096 + (c1 - 128) * 64 + (c2 - 128)))
                    (utf8_decode r)
             else None
         | _ \<Rightarrow> None)
      else if 240 \<le> b \<and> b \<le> 244 then
        (case bs of
           c1 # c2 # c3 # r \<Rightarrow>
             if is_cont c1 \<and> is_cont c2 \<and> is_cont c3
                \<and> (if b = 240 then 144 \<le> c1 else True)
                \<and> (if b = 244 then c1 \<le> 143 else True)
             then map_option
                    ((#) ((b - 240) * 262144 + (c1 - 128) * 4096 + (c2 - 128) * 64 + (c3 - 128)))
                    (utf8_decode r)
             else None
         | _ \<Rightarrow> None)
      else None)"

datatype error = ParseException | UnicodeDecodeError | LookupError

text \<open>
  \<^verbatim>\<open>bytes.decode(encoding, "strict")\<close> for the codec names the program can pass. Every
  octet is a code point of ISO-8859-1; a name that is no codec is a \<^verbatim>\<open>LookupError\<close>.
\<close>

definition decode :: "pystr \<Rightarrow> nat list \<Rightarrow> error + pystr" where
  "decode encoding bs =
     (if encoding = str ''utf-8'' then
        (case utf8_decode bs of None \<Rightarrow> Inl UnicodeDecodeError | Some s \<Rightarrow> Inr s)
      else if encoding = str ''iso-8859-1'' then Inr bs
      else Inl LookupError)"

text \<open>
  \<^verbatim>\<open>unquote(string, encoding=encoding, errors="strict")\<close>. A string without \<open>%\<close> is
  returned as it is. Otherwise each maximal run of ASCII characters is percent-decoded to
  octets and decoded in the charset, and the characters outside ASCII stay where they are.
  \<open>run\<close> is the ASCII run read so far.
\<close>

fun unquote_runs :: "pystr \<Rightarrow> pystr \<Rightarrow> pystr \<Rightarrow> error + pystr" where
  "unquote_runs encoding run [] = decode encoding (unquote_to_bytes run)"
| "unquote_runs encoding run (c # cs) =
     (if c < 128 then unquote_runs encoding (run @ [c]) cs
      else (case decode encoding (unquote_to_bytes run) of
              Inl e \<Rightarrow> Inl e
            | Inr d \<Rightarrow>
                (case unquote_runs encoding [] cs of
                   Inl e \<Rightarrow> Inl e
                 | Inr r \<Rightarrow> Inr (d @ c # r))))"

definition unquote :: "pystr \<Rightarrow> pystr \<Rightarrow> error + pystr" where
  "unquote string encoding =
     (if 37 \<in> set string then unquote_runs encoding [] string else Inr string)"

section \<open>The pyparsing elements the grammar is built from\<close>

text \<open>
  An element reads a prefix of the input left to it and returns its token with the rest of
  the input; \<open>None\<close> is pyparsing's \<^verbatim>\<open>ParseException\<close>. Unless it sits inside a
  \<^verbatim>\<open>Combine\<close>, an element first skips the default whitespace characters (space, line
  feed, tab, carriage return): \<open>sw\<close> is its \<^verbatim>\<open>skipWhitespace\<close> attribute.
\<close>

type_synonym 'a parser = "pystr \<Rightarrow> ('a \<times> pystr) option"

definition DEFAULT_WHITE_CHARS :: pystr where
  "DEFAULT_WHITE_CHARS = [32, 10, 9, 13]"

definition preParse :: "bool \<Rightarrow> pystr \<Rightarrow> pystr" where
  "preParse sw instring =
     (if sw then dropWhile (\<lambda>c. c \<in> set DEFAULT_WHITE_CHARS) instring else instring)"

text \<open>\<^verbatim>\<open>Literal(s)\<close>: the input continues with \<open>s\<close>.\<close>

definition Literal :: "bool \<Rightarrow> pystr \<Rightarrow> pystr parser" where
  "Literal sw s instring =
     (let r = preParse sw instring
      in if take (length s) r = s then Some (s, drop (length s) r) else None)"

text \<open>
  \<^verbatim>\<open>CaselessLiteral(s)\<close>: the next \<open>len(s)\<close> characters, upper-cased, are the
  upper-cased \<open>s\<close>; the token is \<open>s\<close> as the grammar spells it, not the input's text.
\<close>

definition CaselessLiteral :: "bool \<Rightarrow> pystr \<Rightarrow> pystr parser" where
  "CaselessLiteral sw s instring =
     (let r = preParse sw instring
      in if length s \<le> length r \<and> upper (take (length s) r) = upper s
         then Some (s, drop (length s) r) else None)"

text \<open>\<^verbatim>\<open>Word(chars)\<close>: the longest run of characters of \<open>chars\<close>, at least one.\<close>

definition Word :: "bool \<Rightarrow> pystr \<Rightarrow> pystr parser" where
  "Word sw chars instring =
     (let r = preParse sw instring; w = takeWhile (\<lambda>c. c \<in> set chars) r
      in if w = [] then None else Some (w, drop (length w) r))"

text \<open>\<^verbatim>\<open>Word(chars, exact=n)\<close>: exactly \<open>n\<close> characters of \<open>chars\<close>.\<close>

definition Word_exact :: "bool \<Rightarrow> pystr \<Rightarrow> nat \<Rightarrow> pystr parser" where
  "Word_exact sw chars n instring =
     (let r = preParse sw instring; w = take n r
      in if length w = n \<and> list_all (\<lambda>c. c \<in> set chars) w then Some (w, drop n r) else None)"

text \<open>
  \<^verbatim>\<open>Word(chars, min=lo, max=hi)\<close> for a \<open>chars\<close> that holds the space, which pyparsing
  matches character by character: at most \<open>hi\<close> characters are read, and the match fails
  when fewer than \<open>lo\<close> were read or when one more character of \<open>chars\<close> follows.
\<close>

definition Word_min_max :: "bool \<Rightarrow> pystr \<Rightarrow> nat \<Rightarrow> nat \<Rightarrow> pystr parser" where
  "Word_min_max sw chars lo hi instring =
     (let r = preParse sw instring;
          w = takeWhile (\<lambda>c. c \<in> set chars) (take hi r);
          rest = drop (length w) r
      in if length w < lo then None
         else if (case rest of [] \<Rightarrow> False | c # _ \<Rightarrow> c \<in> set chars) then None
         else Some (w, rest))"

text \<open>
  \<^verbatim>\<open>QuotedString(quote_char='"', esc_quote='\\"', esc_char="\\",
  convert_whitespace_escapes=False)\<close>. The body runs to the first unescaped double quote: a
  backslash takes the next character with it (any but a line feed), and a bare line feed or
  carriage return ends the match in failure, as does the end of the input.
\<close>

fun quoted_body :: "pystr \<Rightarrow> (pystr \<times> pystr) option" where
  "quoted_body [] = None"
| "quoted_body (c # cs) =
     (if c = 34 then Some ([], cs)
      else if c = 92 then
        (case cs of
           [] \<Rightarrow> None
         | d # ds \<Rightarrow>
             if d = 10 then None
             else (case quoted_body ds of None \<Rightarrow> None | Some (b, r) \<Rightarrow> Some (c # d # b, r)))
      else if c = 10 \<or> c = 13 then None
      else (case quoted_body cs of None \<Rightarrow> None | Some (b, r) \<Rightarrow> Some (c # b, r)))"

text \<open>The token is the body with each escape replaced by the character it escapes ...\<close>

fun unescape :: "pystr \<Rightarrow> pystr" where
  "unescape (a # b # rest) =
     (if a = 92 \<and> b \<noteq> 10 then b # unescape rest else a # unescape (b # rest))"
| "unescape s = s"

text \<open>... and then with every backslash-quote pair that is left replaced by a quote.\<close>

fun replace_esc_quote :: "pystr \<Rightarrow> pystr" where
  "replace_esc_quote (a # b # rest) =
     (if a = 92 \<and> b = 34 then 34 # replace_esc_quote rest
      else a # replace_esc_quote (b # rest))"
| "replace_esc_quote s = s"

definition QuotedString :: "bool \<Rightarrow> pystr parser" where
  "QuotedString sw instring =
     (case preParse sw instring of
        [] \<Rightarrow> None
      | q # cs \<Rightarrow>
          if q = 34 then
            (case quoted_body cs of
               None \<Rightarrow> None
             | Some (ret, r) \<Rightarrow> Some (replace_esc_quote (unescape ret), r))
          else None)"

text \<open>
  \<^verbatim>\<open>parse_string(instring, parse_all=True)\<close>: tabs are expanded first, the element must
  match at the start, and only whitespace may be left after it.
\<close>

definition parse_string :: "'a parser \<Rightarrow> pystr \<Rightarrow> 'a option" where
  "parse_string p instring =
     (case p (expandtabs instring) of
        None \<Rightarrow> None
      | Some (tokens, r) \<Rightarrow> if preParse True r = [] then Some tokens else None)"

section \<open>The grammar of \<^verbatim>\<open>_main.py\<close>\<close>

record ContentDisposition =
  name :: pystr
  "value" :: pystr

definition token_chars :: pystr where
  "token_chars =
     str ''!#$%&'' @ [39]
       @ str ''*+-.0123456789ABCDEFGHIJKLMNOPQRSTUVWXYZ^_`abcdefghijklmnopqrstuvwxyz|~''"

definition token_chars_without_wildcard :: pystr where
  "token_chars_without_wildcard =
     str ''!#$%&'' @ [39]
       @ str ''+-.0123456789ABCDEFGHIJKLMNOPQRSTUVWXYZ^_`abcdefghijklmnopqrstuvwxyz|~''"

definition token :: "pystr parser" where
  "token = Word True token_chars"

text \<open>
  \<^verbatim>\<open>unencoded_token = Regex("[token_chars]*[token_chars_without_wildcard]")\<close>. The
  regular expression is greedy and backtracks, so it matches the longest prefix of the run
  of token characters that ends in a character other than the wildcard: the run without
  its trailing \<open>*\<close>s, which must not be empty.
\<close>

definition unencoded_token :: "bool \<Rightarrow> pystr parser" where
  "unencoded_token sw instring =
     (let r = preParse sw instring;
          run = takeWhile (\<lambda>c. c \<in> set token_chars) r;
          m = rev (dropWhile (\<lambda>c. c \<notin> set token_chars_without_wildcard) (rev run))
      in if m = [] then None else Some (m, drop (length m) r))"

text \<open>\<^verbatim>\<open>value = token | QuotedString(...)\<close>\<close>

definition value_elem :: "pystr parser" where
  "value_elem instring =
     (case token instring of Some x \<Rightarrow> Some x | None \<Rightarrow> QuotedString True instring)"

text \<open>
  \<^verbatim>\<open>ext_value\<close>. The \<^verbatim>\<open>Combine\<close> skips whitespace once, in front, and none inside.
  The result keeps what the program reads back: \<open>encoding\<close>, which is absent when the
  \<^verbatim>\<open>Empty()\<close> alternative matched, and the tokens named \<open>value\<close>.
\<close>

definition attr_chars :: pystr where
  "attr_chars = str ''!#$&+-.0123456789ABCDEFGHIJKLMNOPQRSTUVWXYZ^_`abcdefghijklmnopqrstuvwxyz|~''"

definition hex_chars :: pystr where
  "hex_chars = str ''abcdefABCDEF0123456789''"

definition alphas :: pystr where
  "alphas = str ''ABCDEFGHIJKLMNOPQRSTUVWXYZabcdefghijklmnopqrstuvwxyz''"

definition ext_value_encoding :: "pystr option parser" where
  "ext_value_encoding instring =
     (case CaselessLiteral False (str ''UTF-8'') instring of
        Some (t, r) \<Rightarrow> Some (Some t, r)
      | None \<Rightarrow>
          (case CaselessLiteral False (str ''ISO-8859-1'') instring of
             Some (t, r) \<Rightarrow> Some (Some t, r)
           | None \<Rightarrow> Some (None, instring)))"

text \<open>One round of the \<^verbatim>\<open>OneOrMore\<close>: a run of plain characters, or \<open>%\<close> and two hex digits.\<close>

definition ext_value_item :: "pystr list parser" where
  "ext_value_item instring =
     (case Word False attr_chars instring of
        Some (w, r) \<Rightarrow> Some ([w], r)
      | None \<Rightarrow>
          (case Literal False [37] instring of
             None \<Rightarrow> None
           | Some (p, r) \<Rightarrow>
               (case Word_exact False hex_chars 2 r of
                  None \<Rightarrow> None
                | Some (h, r') \<Rightarrow> Some ([p, h], r'))))"

text \<open>
  Each element that the two loops of the grammar repeat reads at least one character, so
  the loops end.
\<close>

lemma preParse_length: "length (preParse sw s) \<le> length s"
  by (simp add: preParse_def length_dropWhile_le)

lemma Literal_length:
  assumes "Literal sw (c # s) i = Some (t, r)"
  shows "length r < length i"
proof -
  from assms have t: "take (Suc (length s)) (preParse sw i) = c # s"
    and r: "r = drop (Suc (length s)) (preParse sw i)"
    by (auto simp: Literal_def Let_def split: if_splits)
  from t have "preParse sw i \<noteq> []" by auto
  with r have "length r < length (preParse sw i)" by simp
  with preParse_length [of sw i] show ?thesis by simp
qed

lemma Word_length:
  assumes "Word sw cs i = Some (t, r)"
  shows "length r < length i"
proof -
  define p where "p = preParse sw i"
  from assms have t: "takeWhile (\<lambda>c. c \<in> set cs) p \<noteq> []"
    and r: "r = drop (length (takeWhile (\<lambda>c. c \<in> set cs) p)) p"
    by (auto simp: Word_def Let_def p_def split: if_splits)
  from t have "p \<noteq> []" by auto
  with t r have "length r < length p" by simp
  with preParse_length [of sw i] show ?thesis by (simp add: p_def)
qed

lemma Word_exact_length: "Word_exact sw cs n i = Some (t, r) \<Longrightarrow> length r \<le> length i"
  using preParse_length [of sw i]
  by (auto simp: Word_exact_def Let_def split: if_splits)

lemma ext_value_item_length: "ext_value_item i = Some (t, r) \<Longrightarrow> length r < length i"
  unfolding ext_value_item_def
  by (auto split: option.splits dest!: Word_length Literal_length Word_exact_length)

text \<open>The further rounds of the \<^verbatim>\<open>OneOrMore\<close>: it stops at the first round that fails.\<close>

function ext_value_items :: "pystr \<Rightarrow> pystr list \<times> pystr" where
  "ext_value_items instring =
     (case ext_value_item instring of
        None \<Rightarrow> ([], instring)
      | Some (t, r) \<Rightarrow> (case ext_value_items r of (ts, r') \<Rightarrow> (t @ ts, r')))"
  by pat_completeness auto
termination
  by (relation "measure length") (auto dest: ext_value_item_length)

definition ext_value :: "(pystr option \<times> pystr list) parser" where
  "ext_value instring =
     (case ext_value_encoding (preParse True instring) of
        None \<Rightarrow> None
      | Some (encoding, r1) \<Rightarrow>
          (case Literal False [39] r1 of
             None \<Rightarrow> None
           | Some (q1, r2) \<Rightarrow>
               (let r3 = (case Word_min_max False (alphas @ [32]) 1 3 r2 of
                            None \<Rightarrow> r2
                          | Some (language, r) \<Rightarrow> r)
                in case Literal False [39] r3 of
                     None \<Rightarrow> None
                   | Some (q2, r4) \<Rightarrow>
                       (case ext_value_item r4 of
                          None \<Rightarrow> None
                        | Some (t, r5) \<Rightarrow>
                            (case ext_value_items r5 of
                               (ts, r6) \<Rightarrow> Some ((encoding, t @ ts), r6))))))"

text \<open>
  \<^verbatim>\<open>disp_ext_parm\<close>: the name and its \<open>=\<close> are the tokens named \<open>parm\<close>, the value is
  the token named \<open>value\<close>. The second alternative reads the name with its \<open>*\<close> inside
  a \<^verbatim>\<open>Combine\<close>, with no whitespace between the two.
\<close>

definition disp_ext_parm :: "(pystr list \<times> pystr) parser" where
  "disp_ext_parm instring =
     (case (case unencoded_token True instring of
              None \<Rightarrow> None
            | Some (n, r1) \<Rightarrow>
                (case Literal True [61] r1 of
                   None \<Rightarrow> None
                 | Some (e, r2) \<Rightarrow>
                     (case value_elem r2 of
                        None \<Rightarrow> None
                      | Some (v, r3) \<Rightarrow> Some (([n, e], v), r3)))) of
        Some x \<Rightarrow> Some x
      | None \<Rightarrow>
          (case unencoded_token False (preParse True instring) of
             None \<Rightarrow> None
           | Some (n, r0) \<Rightarrow>
               (case Literal False [42] r0 of
                  None \<Rightarrow> None
                | Some (w, r1) \<Rightarrow>
                    (case Literal True [61] r1 of
                       None \<Rightarrow> None
                     | Some (e, r2) \<Rightarrow>
                         (case value_elem r2 of
                            None \<Rightarrow> None
                          | Some (v, r3) \<Rightarrow> Some (([n @ w, e], v), r3))))))"

definition disposition_parm :: "(pystr list \<times> pystr) parser" where
  "disposition_parm = disp_ext_parm"

definition disp_ext_type :: "pystr parser" where
  "disp_ext_type = token"

definition disposition_type :: "pystr parser" where
  "disposition_type instring =
     (case CaselessLiteral True (str ''inline'') instring of
        Some x \<Rightarrow> Some x
      | None \<Rightarrow>
          (case CaselessLiteral True (str ''attachment'') instring of
             Some x \<Rightarrow> Some x
           | None \<Rightarrow> disp_ext_type instring))"

lemma quoted_body_length: "quoted_body cs = Some (b, r) \<Longrightarrow> length r < length cs"
  by (induction cs arbitrary: b r rule: quoted_body.induct)
     (fastforce split: if_splits list.splits option.splits)+

lemma QuotedString_length: "QuotedString sw i = Some (t, r) \<Longrightarrow> length r < length i"
  using preParse_length [of sw i]
  by (auto simp: QuotedString_def split: list.splits if_splits option.splits
           dest!: quoted_body_length)

lemma value_elem_length: "value_elem i = Some (t, r) \<Longrightarrow> length r < length i"
  by (auto simp: value_elem_def token_def split: option.splits
           dest: Word_length QuotedString_length)

lemma disposition_parm_length:
  assumes "disposition_parm i = Some (t, r)"
  shows "length r < length i"
proof -
  have lit: "Literal True [61] a = Some (e, b) \<Longrightarrow> length b < length a" for a e b
    by (rule Literal_length)
  have star: "Literal False [42] a = Some (e, b) \<Longrightarrow> length b < length a" for a e b
    by (rule Literal_length)
  have tok: "unencoded_token sw a = Some (n, b) \<Longrightarrow> length b \<le> length a" for sw a n b
    using preParse_length [of sw a]
    by (auto simp: unencoded_token_def Let_def split: if_splits)
  from assms show ?thesis
    unfolding disposition_parm_def disp_ext_parm_def
    using preParse_length [of True i]
    by (auto split: option.splits dest!: lit star tok value_elem_length)
qed

text \<open>\<^verbatim>\<open>ZeroOrMore(Literal(";") + disposition_parm)\<close>, collecting \<open>parm\<close> and \<open>value\<close>.\<close>

function disposition_parms :: "pystr \<Rightarrow> (pystr list list \<times> pystr list) \<times> pystr" where
  "disposition_parms instring =
     (case Literal True [59] instring of
        None \<Rightarrow> (([], []), instring)
      | Some (semi, r1) \<Rightarrow>
          (case disposition_parm r1 of
             None \<Rightarrow> (([], []), instring)
           | Some ((parm, v), r2) \<Rightarrow>
               (case disposition_parms r2 of
                  ((parms, vs), r3) \<Rightarrow> ((parm # parms, v # vs), r3))))"
  by pat_completeness auto
termination
  by (relation "measure length") (auto dest!: Literal_length disposition_parm_length)

text \<open>
  \<^verbatim>\<open>parser\<close>: the type, the parameters, and an optional last \<open>;\<close>. The result holds
  the tokens named \<open>type\<close>, \<open>parm\<close> and \<open>value\<close>.
\<close>

definition parser :: "(pystr \<times> pystr list list \<times> pystr list) parser" where
  "parser instring =
     (case disposition_type instring of
        None \<Rightarrow> None
      | Some (type, r1) \<Rightarrow>
          (case disposition_parms r1 of
             ((parms, vs), r2) \<Rightarrow>
               Some ((type, parms, vs),
                     (case Literal True [59] r2 of None \<Rightarrow> r2 | Some (semi, r3) \<Rightarrow> r3))))"

definition INVALID_ISO8859_1_CHARACTERS :: "nat set" where
  "INVALID_ISO8859_1_CHARACTERS = set ([0..<32] @ [127..<160])"

section \<open>parse\<close>

text \<open>
  The loop of \<^verbatim>\<open>parse\<close> over the zipped \<open>parm\<close> and \<open>value\<close> tokens, with its two local
  variables: the set \<open>seen_parms\<close> and the list \<open>all_content_disposition\<close>.
\<close>

fun parse_loop ::
  "(pystr list \<times> pystr) list \<Rightarrow> pystr set \<Rightarrow> ContentDisposition list
     \<Rightarrow> error + ContentDisposition list" where
  "parse_loop [] seen_parms all_content_disposition = Inr all_content_disposition"
| "parse_loop ((parm, v) # rest) seen_parms all_content_disposition =
     (let parm_str = concat parm in
      if parm_str \<in> seen_parms then Inl ParseException
      else
        let seen_parms' = insert parm_str seen_parms;
            parm_str' = lower (butlast parm_str)
        in if endswith_star parm_str' then
             (case parse_string ext_value v of
                None \<Rightarrow> Inl ParseException
              | Some (None, value_tokens) \<Rightarrow> parse_loop rest seen_parms' all_content_disposition
              | Some (Some enc, value_tokens) \<Rightarrow>
                  (let encoding = lower enc in
                   case unquote (concat value_tokens) encoding of
                     Inl UnicodeDecodeError \<Rightarrow> Inl ParseException
                   | Inl e \<Rightarrow> Inl e
                   | Inr value_str \<Rightarrow>
                       if encoding = str ''iso-8859-1''
                          \<and> set value_str \<inter> INVALID_ISO8859_1_CHARACTERS \<noteq> {}
                       then Inl ParseException
                       else parse_loop rest seen_parms'
                              (all_content_disposition
                                 @ [\<lparr>name = parm_str', value = value_str\<rparr>])))
           else parse_loop rest seen_parms'
                  (all_content_disposition @ [\<lparr>name = parm_str', value = v\<rparr>]))"

definition parse :: "pystr \<Rightarrow> error + (pystr \<times> ContentDisposition list)" where
  "parse header =
     (case parse_string parser header of
        None \<Rightarrow> Inl ParseException
      | Some (type, parms, vs) \<Rightarrow>
          (let content_disposition_type = lower type in
           case parse_loop (zip parms vs) {} [] of
             Inl e \<Rightarrow> Inl e
           | Inr all_content_disposition \<Rightarrow>
               Inr (content_disposition_type, all_content_disposition)))"

section \<open>secure\_filename and parse\_filename\<close>

definition secure_filename :: "pystr \<Rightarrow> pystr" where
  "secure_filename filename = replace_char 47 95 (replace_char 92 95 filename)"

definition normal_filename :: "ContentDisposition \<Rightarrow> pystr" where
  "normal_filename content_disposition = value content_disposition"

text \<open>
  The loop of \<^verbatim>\<open>combine_filename\<close> over \<open>range(1, 99999)\<close>: the first parameter named
  \<open>filename*i*\<close>, or else the first named \<open>filename*i\<close>, is appended; with neither the
  loop is left.
\<close>

function combine_loop :: "ContentDisposition list \<Rightarrow> nat \<Rightarrow> pystr \<Rightarrow> pystr" where
  "combine_loop all_content_disposition i filename =
     (if i < 99999 then
        (case find (\<lambda>cd. name cd = str ''filename*'' @ str_nat i @ str ''*'')
                all_content_disposition of
           Some cd \<Rightarrow> combine_loop all_content_disposition (i + 1) (filename @ value cd)
         | None \<Rightarrow>
             (case find (\<lambda>cd. name cd = str ''filename*'' @ str_nat i)
                     all_content_disposition of
                Some cd \<Rightarrow> combine_loop all_content_disposition (i + 1) (filename @ value cd)
              | None \<Rightarrow> filename))
      else filename)"
  by pat_completeness auto
termination
  by (relation "measure (\<lambda>(a, i, f). 99999 - i)") auto

definition combine_filename :: "ContentDisposition list \<Rightarrow> ContentDisposition \<Rightarrow> pystr" where
  "combine_filename all_content_disposition content_disposition =
     combine_loop all_content_disposition 1 (value content_disposition)"

definition header_handlers ::
  "ContentDisposition list \<Rightarrow> (pystr \<times> (ContentDisposition \<Rightarrow> pystr)) list" where
  "header_handlers all_content_disposition =
     [(str ''filename*'', normal_filename),
      (str ''filename'', normal_filename),
      (str ''filename*0*'', combine_filename all_content_disposition),
      (str ''filename*0'', combine_filename all_content_disposition)]"

text \<open>Python's truth value of \<open>filename\<close>: \<^verbatim>\<open>None\<close> and the empty string are false.\<close>

definition truthy :: "pystr option \<Rightarrow> bool" where
  "truthy filename = (case filename of None \<Rightarrow> False | Some s \<Rightarrow> s \<noteq> [])"

text \<open>
  The two nested loops of \<^verbatim>\<open>parse_filename\<close>; \<open>filename\<close> is the variable they assign.
  The inner loop runs over the parameters for one handler and breaks at the first match
  whose handler returns a non-empty string; the outer loop breaks once \<open>filename\<close> is
  true.
\<close>

fun handler_loop ::
  "pystr \<Rightarrow> (ContentDisposition \<Rightarrow> pystr) \<Rightarrow> ContentDisposition list \<Rightarrow> pystr option
     \<Rightarrow> pystr option" where
  "handler_loop n handler_func [] filename = filename"
| "handler_loop n handler_func (content_disposition # rest) filename =
     (if name content_disposition = n then
        (let filename' = Some (handler_func content_disposition)
         in if truthy filename' then filename'
            else handler_loop n handler_func rest filename')
      else handler_loop n handler_func rest filename)"

fun handlers_loop ::
  "(pystr \<times> (ContentDisposition \<Rightarrow> pystr)) list \<Rightarrow> ContentDisposition list
     \<Rightarrow> pystr option \<Rightarrow> pystr option" where
  "handlers_loop [] all_content_disposition filename = filename"
| "handlers_loop ((n, handler_func) # rest) all_content_disposition filename =
     (let filename' = handler_loop n handler_func all_content_disposition filename
      in if truthy filename' then filename'
         else handlers_loop rest all_content_disposition filename')"

definition parse_filename :: "pystr \<Rightarrow> bool \<Rightarrow> error + pystr option" where
  "parse_filename header enforce_content_disposition_type =
     (case parse header of
        Inl e \<Rightarrow> Inl e
      | Inr (content_disposition_type, all_content_disposition) \<Rightarrow>
          if enforce_content_disposition_type
             \<and> content_disposition_type \<notin> set [str ''attachment'', str ''inline'']
          then Inr None
          else
            (let filename =
                   handlers_loop (header_handlers all_content_disposition)
                     all_content_disposition None
             in if truthy filename then Inr (map_option secure_filename filename)
                else Inr filename))"

section \<open>Properties of the loop of \<^verbatim>\<open>parse\<close>\<close>

text \<open>
  The charset that \<^verbatim>\<open>ext_value\<close> names is one of its two literals, so \<^verbatim>\<open>unquote\<close> always
  finds its codec, and \<^verbatim>\<open>ParseException\<close> is the only exception \<^verbatim>\<open>parse\<close> raises.
\<close>

lemma str_lits:
  "lower (str ''UTF-8'') = str ''utf-8''"
  "lower (str ''ISO-8859-1'') = str ''iso-8859-1''"
  "str ''utf-8'' \<noteq> str ''iso-8859-1''"
  by (simp_all add: lower_def lower_cp_def str_def)

lemma ext_value_encoding_cases:
  assumes "ext_value_encoding i = Some (Some enc, r)"
  shows "enc = str ''UTF-8'' \<or> enc = str ''ISO-8859-1''"
  using assms
  by (auto simp: ext_value_encoding_def CaselessLiteral_def Let_def split: option.splits if_splits)

lemma ext_value_encoding:
  assumes "ext_value i = Some ((Some enc, toks), r)"
  shows "enc = str ''UTF-8'' \<or> enc = str ''ISO-8859-1''"
proof -
  from assms obtain r1 where "ext_value_encoding (preParse True i) = Some (Some enc, r1)"
    by (auto simp: ext_value_def Let_def split: option.splits prod.splits)
  then show ?thesis by (rule ext_value_encoding_cases)
qed

lemma parse_string_ext_value_encoding:
  assumes "parse_string ext_value v = Some (Some enc, toks)"
  shows "lower enc = str ''utf-8'' \<or> lower enc = str ''iso-8859-1''"
proof -
  from assms obtain r where "ext_value (expandtabs v) = Some ((Some enc, toks), r)"
    by (auto simp: parse_string_def split: option.splits if_splits)
  from ext_value_encoding [OF this] show ?thesis by (auto simp: str_lits)
qed

lemma decode_error:
  assumes "encoding = str ''utf-8'' \<or> encoding = str ''iso-8859-1''"
    and "decode encoding bs = Inl e"
  shows "e = UnicodeDecodeError"
  using assms by (auto simp: decode_def split: if_splits option.splits)

lemma unquote_runs_error:
  assumes "encoding = str ''utf-8'' \<or> encoding = str ''iso-8859-1''"
  shows "unquote_runs encoding run cs = Inl e \<Longrightarrow> e = UnicodeDecodeError"
proof (induction cs arbitrary: run)
  case Nil
  then show ?case using decode_error [OF assms] by simp
next
  case (Cons c cs)
  show ?case
  proof (cases "c < 128")
    case True
    with Cons show ?thesis by simp
  next
    case False
    show ?thesis
    proof (cases "decode encoding (unquote_to_bytes run)")
      case (Inl err)
      with False Cons.prems decode_error [OF assms Inl] show ?thesis by simp
    next
      case (Inr d)
      with False Cons.prems Cons.IH [of "[]"] show ?thesis
        by (auto split: sum.splits)
    qed
  qed
qed

lemma unquote_error:
  assumes "encoding = str ''utf-8'' \<or> encoding = str ''iso-8859-1''"
    and "unquote s encoding = Inl e"
  shows "e = UnicodeDecodeError"
  using assms unquote_runs_error [of encoding "[]" s e]
  by (auto simp: unquote_def split: if_splits)

text \<open>One round of the loop either raises ParseException or goes on with the rest.\<close>

lemma parse_loop_step:
  "parse_loop (x # rest) seen acc = Inl ParseException
   \<or> (\<exists>acc'. parse_loop (x # rest) seen acc
                  = parse_loop rest (insert (concat (fst x)) seen) acc')"
proof (cases x)
  case (Pair parm v)
  show ?thesis
  proof (cases "parse_string ext_value v")
    case None
    with Pair show ?thesis by (auto simp: Let_def)
  next
    case (Some res)
    obtain enc toks where res: "res = (enc, toks)" by (cases res)
    show ?thesis
    proof (cases enc)
      case None
      with Pair Some res show ?thesis by (auto simp: Let_def)
    next
      case (Some e)
      with \<open>parse_string ext_value v = Some res\<close> res
      have ps: "parse_string ext_value v = Some (Some e, toks)" by simp
      from parse_string_ext_value_encoding [OF ps]
      have enc_ok: "lower e = str ''utf-8'' \<or> lower e = str ''iso-8859-1''" .
      show ?thesis
      proof (cases "unquote (concat toks) (lower e)")
        case (Inl err)
        with unquote_error [OF enc_ok Inl] Pair ps show ?thesis by (auto simp: Let_def)
      next
        case (Inr s)
        with Pair ps show ?thesis by (auto simp: Let_def)
      qed
    qed
  qed
qed

lemma parse_loop_only_ParseException:
  "parse_loop ps seen acc = Inl e \<Longrightarrow> e = ParseException"
proof (induction ps arbitrary: seen acc)
  case Nil
  then show ?case by simp
next
  case (Cons x ps)
  from parse_loop_step [of x ps seen acc] Cons show ?case by auto
qed

lemma parse_loop_fails_anywhere:
  assumes "(parm, v) \<in> set ps"
    and "\<And>rest seen acc. parse_loop ((parm, v) # rest) seen acc = Inl ParseException"
  shows "parse_loop ps seen acc = Inl ParseException"
  using assms(1)
proof (induction ps arbitrary: seen acc)
  case Nil
  then show ?case by simp
next
  case (Cons x ps)
  show ?case
  proof (cases "x = (parm, v)")
    case True
    with assms(2) show ?thesis by simp
  next
    case False
    with Cons.prems have "(parm, v) \<in> set ps" by simp
    with Cons.IH parse_loop_step [of x ps seen acc] show ?thesis by auto
  qed
qed

lemma parse_loop_seen_fails:
  assumes "(parm, v) \<in> set ps" and "concat parm \<in> seen"
  shows "parse_loop ps seen acc = Inl ParseException"
  using assms
proof (induction ps arbitrary: seen acc)
  case Nil
  then show ?case by simp
next
  case (Cons x ps)
  show ?case
  proof (cases "x = (parm, v)")
    case True
    with Cons.prems show ?thesis by (simp add: Let_def)
  next
    case False
    with Cons.prems have "(parm, v) \<in> set ps" by simp
    with Cons.IH Cons.prems(2) parse_loop_step [of x ps seen acc] show ?thesis by auto
  qed
qed

lemma parse_only_ParseException: "parse header = Inl e \<Longrightarrow> e = ParseException"
  by (auto simp: parse_def Let_def split: option.splits sum.splits prod.splits
           dest: parse_loop_only_ParseException)

lemma parse_fails_at_parameter:
  assumes "parse_string parser header = Some (ty, parms, vs)"
    and "(parm, v) \<in> set (zip parms vs)"
    and "\<And>rest seen acc. parse_loop ((parm, v) # rest) seen acc = Inl ParseException"
  shows "parse header = Inl ParseException" and "parse_filename header b = Inl ParseException"
proof -
  from parse_loop_fails_anywhere [OF assms(2), of "{}" "[]"] assms(3)
  have "parse_loop (zip parms vs) {} [] = Inl ParseException" by blast
  with assms(1) show p: "parse header = Inl ParseException"
    by (simp add: parse_def)
  then show "parse_filename header b = Inl ParseException"
    by (simp add: parse_filename_def)
qed


text \<open>A value that starts with the quote has an empty charset slot.\<close>

lemma ext_value_encoding_quote: "ext_value_encoding (39 # r) = Some (None, 39 # r)"
  by (simp add: ext_value_encoding_def CaselessLiteral_def preParse_def upper_def upper_cp_def
        str_def)

lemma parse_string_ext_value_quote:
  assumes "preParse True (expandtabs v) = 39 # r"
    and "parse_string ext_value v = Some (enc, toks)"
  shows "enc = None"
proof -
  from assms(2) obtain r' where "ext_value (expandtabs v) = Some ((enc, toks), r')"
    by (auto simp: parse_string_def split: option.splits if_splits)
  with assms(1) show ?thesis
    by (auto simp: ext_value_def ext_value_encoding_quote Let_def split: option.splits prod.splits)
qed

lemma INVALID_ISO8859_1_CHARACTERS_iff:
  "c \<in> INVALID_ISO8859_1_CHARACTERS \<longleftrightarrow> c < 32 \<or> (127 \<le> c \<and> c < 160)"
proof -
  have "c \<in> INVALID_ISO8859_1_CHARACTERS \<longleftrightarrow> c \<in> {0..<32} \<union> {127..<160}"
    by (simp only: INVALID_ISO8859_1_CHARACTERS_def set_append set_upt)
  then show ?thesis by auto
qed

section \<open>The filename that \<^verbatim>\<open>parse_filename\<close> selects\<close>









section \<open>The charset slot of an extended value\<close>













section \<open>Claims\<close>

subsection \<open>C9: the enforced disposition type\<close>

text \<open>
  C9. For every header that parses with a disposition type that is neither
  \<open>attachment\<close> nor \<open>inline\<close> (the type is already lower-cased by \<open>parse\<close>),
  \<open>parse_filename\<close> with \<open>enforce_content_disposition_type\<close> set returns \<^verbatim>\<open>None\<close>,
  whatever parameters the header has.
\<close>

theorem parse_filename_enforce_unknown_type:
  assumes "parse header = Inr (content_disposition_type, all_content_disposition)"
    and "content_disposition_type \<noteq> str ''attachment''"
    and "content_disposition_type \<noteq> str ''inline''"
  shows "parse_filename header True = Inr None"
  using assms by (simp add: parse_filename_def)

theorem parse_filename_enforce_unknown_type_witness:
  "parse (str ''custom-type; filename=x'')
     = Inr (str ''custom-type'', [\<lparr>name = str ''filename'', value = str ''x''\<rparr>])
   \<and> parse_filename (str ''custom-type; filename=x'') False = Inr (Some (str ''x''))
   \<and> parse_filename (str ''custom-type; filename=x'') True = Inr None"
proof -
  have p: "parse (str ''custom-type; filename=x'')
             = Inr (str ''custom-type'', [\<lparr>name = str ''filename'', value = str ''x''\<rparr>])"
    by code_simp
  have a: "str ''custom-type'' \<noteq> str ''attachment''" by (simp add: str_def)
  have i: "str ''custom-type'' \<noteq> str ''inline''" by (simp add: str_def)
  have f: "parse_filename (str ''custom-type; filename=x'') False = Inr (Some (str ''x''))"
    by code_simp
  from p f parse_filename_enforce_unknown_type [OF p a i] show ?thesis by simp
qed

subsection \<open>C7: an extended UTF-8 value\<close>

text \<open>
  C7. \<^verbatim>\<open>parse_filename("attachment; filename*=UTF-8''%e2%82%ac%20rates.txt")\<close> is the
  string of the euro sign (U+20AC, 8364) followed by \<open> rates.txt\<close>, and \<open>parse\<close> of the
  same header is the type \<open>attachment\<close> with the single parameter \<open>filename*\<close> that
  holds this value.
\<close>

theorem parse_filename_euro_rates:
  "parse_filename
     (str ''attachment; filename*=UTF-8'' @ [39, 39] @ str ''%e2%82%ac%20rates.txt'') False
     = Inr (Some (8364 # str '' rates.txt''))
   \<and> parse (str ''attachment; filename*=UTF-8'' @ [39, 39] @ str ''%e2%82%ac%20rates.txt'')
     = Inr (str ''attachment'',
            [\<lparr>name = str ''filename*'', value = 8364 # str '' rates.txt''\<rparr>])"
proof
  show "parse_filename
     (str ''attachment; filename*=UTF-8'' @ [39, 39] @ str ''%e2%82%ac%20rates.txt'') False
     = Inr (Some (8364 # str '' rates.txt''))"
    by code_simp
  show "parse (str ''attachment; filename*=UTF-8'' @ [39, 39] @ str ''%e2%82%ac%20rates.txt'')
     = Inr (str ''attachment'',
            [\<lparr>name = str ''filename*'', value = 8364 # str '' rates.txt''\<rparr>])"
    by code_simp
qed

subsection \<open>C2: duplicate parameter names\<close>

text \<open>
  C2. Two parameters with the same spelling of the name make \<open>parse\<close> raise
  \<^verbatim>\<open>ParseException\<close>, but the name is looked up in \<open>seen_parms\<close> before it is
  lower-cased: \<^verbatim>\<open>attachment; filename="a"; FILENAME="b"\<close> is accepted, and the result holds
  two parameters named \<open>filename\<close>.
\<close>

theorem parse_duplicate_case_variant:
  "parse (str ''attachment; filename='' @ [34, 97, 34] @ str ''; FILENAME='' @ [34, 98, 34])
     = Inr (str ''attachment'',
            [\<lparr>name = str ''filename'', value = str ''a''\<rparr>,
             \<lparr>name = str ''filename'', value = str ''b''\<rparr>])
   \<and> parse (str ''attachment; filename='' @ [34, 97, 34] @ str ''; filename='' @ [34, 98, 34])
     = Inl ParseException"
proof
  show "parse (str ''attachment; filename='' @ [34, 97, 34] @ str ''; FILENAME='' @ [34, 98, 34])
     = Inr (str ''attachment'',
            [\<lparr>name = str ''filename'', value = str ''a''\<rparr>,
             \<lparr>name = str ''filename'', value = str ''b''\<rparr>])"
    by code_simp
  show "parse (str ''attachment; filename='' @ [34, 97, 34] @ str ''; filename='' @ [34, 98, 34])
     = Inl ParseException"
    by code_simp
qed

subsection \<open>C1: an extended value with an unrecognised charset\<close>




subsection \<open>C10: an extended value with an empty charset slot\<close>

text \<open>
  C10. When the raw value of an extended parameter starts with \<open>'\<close> and matches
  \<^verbatim>\<open>ext_value\<close>, the loop of \<open>parse\<close> adds nothing to the result for it and goes on, with
  the name's raw spelling added to \<open>seen_parms\<close>; a later parameter with the same raw
  spelling then makes \<open>parse\<close> raise \<^verbatim>\<open>ParseException\<close>. So
  \<^verbatim>\<open>attachment; filename*=''x\<close> parses to the type \<open>attachment\<close> with no parameter, and
  \<^verbatim>\<open>attachment; filename*=''x; filename*=UTF-8''y\<close> is an error.
\<close>

theorem parse_empty_charset_skipped:
  assumes "preParse True (expandtabs v) = 39 # r"
    and "parse_string ext_value v = Some (enc, toks)"
    and "endswith_star (lower (butlast (concat parm)))"
    and "concat parm \<notin> seen_parms"
  shows "parse_loop ((parm, v) # rest) seen_parms all_content_disposition
           = parse_loop rest (insert (concat parm) seen_parms) all_content_disposition
         \<and> (\<forall>parm' v'. (parm', v') \<in> set rest \<and> concat parm' = concat parm \<longrightarrow>
               parse_loop ((parm, v) # rest) seen_parms all_content_disposition
                 = Inl ParseException)
         \<and> parse (str ''attachment; filename*='' @ [39, 39] @ str ''x'')
             = Inr (str ''attachment'', [])
         \<and> parse (str ''attachment; filename*='' @ [39, 39] @ str ''x; filename*=UTF-8''
                    @ [39, 39] @ str ''y'')
             = Inl ParseException"
proof -
  from parse_string_ext_value_quote [OF assms(1) assms(2)] assms(2)
  have ps: "parse_string ext_value v = Some (None, toks)" by simp
  with assms(3) assms(4)
  have step: "parse_loop ((parm, v) # rest) seen_parms all_content_disposition
                = parse_loop rest (insert (concat parm) seen_parms) all_content_disposition"
    by (simp add: Let_def)
  have later: "parse_loop ((parm, v) # rest) seen_parms all_content_disposition
                 = Inl ParseException"
    if "(parm', v') \<in> set rest" and "concat parm' = concat parm" for parm' v'
  proof -
    from that(2) have "concat parm' \<in> insert (concat parm) seen_parms" by simp
    from parse_loop_seen_fails [OF that(1) this] step show ?thesis by simp
  qed
  have e1: "parse (str ''attachment; filename*='' @ [39, 39] @ str ''x'')
             = Inr (str ''attachment'', [])"
    by code_simp
  have e2: "parse (str ''attachment; filename*='' @ [39, 39] @ str ''x; filename*=UTF-8''
                    @ [39, 39] @ str ''y'')
             = Inl ParseException"
    by code_simp
  from step later e1 e2 show ?thesis by blast
qed

theorem parse_empty_charset_skipped_witness:
  "parse_loop [([str ''filename*'', str ''=''], [39, 39] @ str ''x''),
               ([str ''filename'', str ''=''], str ''y'')] {} []
     = Inr [\<lparr>name = str ''filename'', value = str ''y''\<rparr>]
   \<and> parse_loop [([str ''filename*'', str ''=''], [39, 39] @ str ''x''),
               ([str ''filename*'', str ''=''], str ''UTF-8'' @ [39, 39] @ str ''y'')] {} []
     = Inl ParseException"
proof -
  have a1: "preParse True (expandtabs ([39, 39] @ str ''x'')) = 39 # 39 # str ''x''"
    by code_simp
  have a2: "parse_string ext_value ([39, 39] @ str ''x'') = Some (None, [str ''x''])"
    by code_simp
  have a3: "endswith_star (lower (butlast (concat [str ''filename*'', str ''=''])))"
    by code_simp
  have a4: "concat [str ''filename*'', str ''=''] \<notin> {}" by simp
  have r1: "parse_loop [([str ''filename'', str ''=''], str ''y'')]
              (insert (concat [str ''filename*'', str ''='']) {}) []
            = Inr [\<lparr>name = str ''filename'', value = str ''y''\<rparr>]"
    by code_simp
  have m: "([str ''filename*'', str ''=''], str ''UTF-8'' @ [39, 39] @ str ''y'')
             \<in> set [([str ''filename*'', str ''=''], str ''UTF-8'' @ [39, 39] @ str ''y'')]"
    by simp
  from parse_empty_charset_skipped [OF a1 a2 a3 a4,
      of "[([str ''filename'', str ''=''], str ''y'')]" "[]"] r1
  have w1: "parse_loop [([str ''filename*'', str ''=''], [39, 39] @ str ''x''),
               ([str ''filename'', str ''=''], str ''y'')] {} []
     = Inr [\<lparr>name = str ''filename'', value = str ''y''\<rparr>]"
    by simp
  from parse_empty_charset_skipped [OF a1 a2 a3 a4,
      of "[([str ''filename*'', str ''=''], str ''UTF-8'' @ [39, 39] @ str ''y'')]" "[]"] m
  have w2: "parse_loop [([str ''filename*'', str ''=''], [39, 39] @ str ''x''),
               ([str ''filename*'', str ''=''], str ''UTF-8'' @ [39, 39] @ str ''y'')] {} []
     = Inl ParseException"
    by blast
  from w1 w2 show ?thesis by simp
qed

subsection \<open>C8: control characters in an ISO-8859-1 value\<close>

text \<open>
  C8. When a header has an extended parameter that declares ISO-8859-1 and whose decoded
  string holds a code point below U+0020 or in U+007F..U+009F, \<open>parse\<close> raises
  \<^verbatim>\<open>ParseException\<close>. A value that declares UTF-8 is stored as \<^verbatim>\<open>unquote\<close> decodes it,
  with no further check.
\<close>

theorem parse_iso_8859_1_control_rejected:
  assumes "parse_string parser header = Some (ty, parms, vs)"
    and "(parm, v) \<in> set (zip parms vs)"
    and "endswith_star (lower (butlast (concat parm)))"
    and "parse_string ext_value v = Some (Some enc, toks)"
    and "lower enc = str ''iso-8859-1''"
    and "unquote (concat toks) (str ''iso-8859-1'') = Inr value_str"
    and "c \<in> set value_str"
    and "c < 32 \<or> (127 \<le> c \<and> c < 160)"
  shows "parse header = Inl ParseException
         \<and> (\<forall>parm' v' enc' toks' s rest seen_parms all_content_disposition.
              endswith_star (lower (butlast (concat parm')))
              \<and> concat parm' \<notin> seen_parms
              \<and> parse_string ext_value v' = Some (Some enc', toks')
              \<and> lower enc' = str ''utf-8''
              \<and> unquote (concat toks') (str ''utf-8'') = Inr s
              \<longrightarrow> parse_loop ((parm', v') # rest) seen_parms all_content_disposition
                    = parse_loop rest (insert (concat parm') seen_parms)
                        (all_content_disposition
                           @ [\<lparr>name = lower (butlast (concat parm')), value = s\<rparr>]))"
proof -
  from assms(7) assms(8) have "set value_str \<inter> INVALID_ISO8859_1_CHARACTERS \<noteq> {}"
    by (auto simp: INVALID_ISO8859_1_CHARACTERS_iff)
  with assms(3-6)
  have "\<And>rest seen acc. parse_loop ((parm, v) # rest) seen acc = Inl ParseException"
    by (simp add: Let_def)
  from parse_fails_at_parameter(1) [OF assms(1) assms(2) this]
  have iso: "parse header = Inl ParseException" .
  have utf: "parse_loop ((parm', v') # rest) seen_parms all_content_disposition
                    = parse_loop rest (insert (concat parm') seen_parms)
                        (all_content_disposition
                           @ [\<lparr>name = lower (butlast (concat parm')), value = s\<rparr>])"
    if "endswith_star (lower (butlast (concat parm')))" "concat parm' \<notin> seen_parms"
       "parse_string ext_value v' = Some (Some enc', toks')" "lower enc' = str ''utf-8''"
       "unquote (concat toks') (str ''utf-8'') = Inr s"
    for parm' v' enc' toks' s rest seen_parms all_content_disposition
    using that by (simp add: Let_def str_lits)
  from iso utf show ?thesis by blast
qed

theorem parse_iso_8859_1_control_rejected_witness:
  "parse (str ''attachment; filename*=ISO-8859-1'' @ [39, 39] @ str ''%01'')
     = Inl ParseException
   \<and> parse_loop [([str ''filename*'', str ''=''], str ''UTF-8'' @ [39, 39] @ str ''%01'')] {} []
     = Inr [\<lparr>name = str ''filename*'', value = [1]\<rparr>]"
proof -
  have t: "parse_string parser (str ''attachment; filename*=ISO-8859-1'' @ [39, 39] @ str ''%01'')
             = Some (str ''attachment'', [[str ''filename*'', str ''='']],
                     [str ''ISO-8859-1'' @ [39, 39] @ str ''%01''])"
    by code_simp
  have m: "([str ''filename*'', str ''=''], str ''ISO-8859-1'' @ [39, 39] @ str ''%01'')
             \<in> set (zip [[str ''filename*'', str ''='']]
                        [str ''ISO-8859-1'' @ [39, 39] @ str ''%01''])"
    by simp
  have e: "endswith_star (lower (butlast (concat [str ''filename*'', str ''=''])))"
    by code_simp
  have x: "parse_string ext_value (str ''ISO-8859-1'' @ [39, 39] @ str ''%01'')
             = Some (Some (str ''ISO-8859-1''), [str ''%'', str ''01''])"
    by code_simp
  have l: "lower (str ''ISO-8859-1'') = str ''iso-8859-1''" by (rule str_lits)
  have u: "unquote (concat [str ''%'', str ''01'']) (str ''iso-8859-1'') = Inr [1]"
    by code_simp
  have c: "(1::nat) \<in> set [1]" by simp
  have b: "(1::nat) < 32 \<or> (127 \<le> (1::nat) \<and> (1::nat) < 160)" by simp
  have n: "concat [str ''filename*'', str ''=''] \<notin> {}" by simp
  have x8: "parse_string ext_value (str ''UTF-8'' @ [39, 39] @ str ''%01'')
             = Some (Some (str ''UTF-8''), [str ''%'', str ''01''])"
    by code_simp
  have l8: "lower (str ''UTF-8'') = str ''utf-8''" by (rule str_lits)
  have u8: "unquote (concat [str ''%'', str ''01'']) (str ''utf-8'') = Inr [1]"
    by code_simp
  have nm: "lower (butlast (concat [str ''filename*'', str ''=''])) = str ''filename*''"
    by code_simp
  note main = parse_iso_8859_1_control_rejected [OF t m e x l u c b]
  from main have w1: "parse (str ''attachment; filename*=ISO-8859-1'' @ [39, 39] @ str ''%01'')
     = Inl ParseException" by blast
  from main e n x8 l8 u8
  have "parse_loop [([str ''filename*'', str ''=''], str ''UTF-8'' @ [39, 39] @ str ''%01'')] {} []
     = parse_loop [] (insert (concat [str ''filename*'', str ''='']) {})
         ([] @ [\<lparr>name = lower (butlast (concat [str ''filename*'', str ''=''])), value = [1]\<rparr>])"
    by blast
  with nm have w2: "parse_loop [([str ''filename*'', str ''=''], str ''UTF-8'' @ [39, 39] @ str ''%01'')] {} []
     = Inr [\<lparr>name = str ''filename*'', value = [1]\<rparr>]"
    by simp
  from w1 w2 show ?thesis by simp
qed

end
